theory Spec2Isabelle
  imports Main "HOL-Library.Sublist"
begin

section \<open>Python text\<close>

text \<open>
  A Python \<open>str\<close> is a sequence of Unicode code points; it is modelled as a list of
  natural numbers, one per code point, so that slicing (\<open>s[:80]\<close>), \<open>strip\<close>,
  \<open>splitlines\<close> and the regular expressions count and classify what Python counts and
  classifies. ASCII literals are written \<open>u ''...''\<close>; other code points are written as
  numbers (8212 is the em dash, 129718 the headstone of the log's header).
\<close>

type_synonym str = "nat list"

definition u :: "string \<Rightarrow> str" where
  "u s = map of_char s"

abbreviation LF :: nat where "LF \<equiv> 10"
abbreviation CR :: nat where "CR \<equiv> 13"

text \<open>\<open>str.isspace\<close> of one character; the class \<open>\s\<close> of \<open>re\<close> on \<open>str\<close> patterns is the same set.\<close>

definition isspace :: "nat \<Rightarrow> bool" where
  "isspace c \<longleftrightarrow>
     (9 \<le> c \<and> c \<le> 13) \<or> (28 \<le> c \<and> c \<le> 32) \<or> c = 133 \<or> c = 160 \<or> c = 5760 \<or>
     (8192 \<le> c \<and> c \<le> 8202) \<or> c = 8232 \<or> c = 8233 \<or> c = 8239 \<or> c = 8287 \<or> c = 12288"

text \<open>The line boundaries of \<open>str.splitlines\<close>.\<close>

definition is_linebreak :: "nat \<Rightarrow> bool" where
  "is_linebreak c \<longleftrightarrow>
     (10 \<le> c \<and> c \<le> 13) \<or> (28 \<le> c \<and> c \<le> 30) \<or> c = 133 \<or> c = 8232 \<or> c = 8233"

definition strip :: "str \<Rightarrow> str" where
  "strip s = rev (dropWhile isspace (rev (dropWhile isspace s)))"

text \<open>\<open>s.rstrip(chars)\<close>.\<close>

definition rstrip_chars :: "str \<Rightarrow> str \<Rightarrow> str" where
  "rstrip_chars chars s = rev (dropWhile (\<lambda>c. c \<in> set chars) (rev s))"

text \<open>\<open>sep.join(xs)\<close>.\<close>

fun join :: "str \<Rightarrow> str list \<Rightarrow> str" where
  "join sep [] = []"
| "join sep [x] = x"
| "join sep (x # y # ys) = x @ sep @ join sep (y # ys)"

text \<open>\<open>sub in s\<close>.\<close>

fun contains :: "str \<Rightarrow> str \<Rightarrow> bool" where
  "contains sub [] = (sub = [])"
| "contains sub (c # cs) = (prefix sub (c # cs) \<or> contains sub cs)"

text \<open>
  \<open>str.splitlines()\<close>: every line boundary ends a line (an empty one too), a carriage
  return directly followed by a line feed is one boundary, and what follows the last
  boundary is a line only when it is not empty.
\<close>

fun splitlines :: "str \<Rightarrow> str list" where
  "splitlines [] = []"
| "splitlines (c # cs) =
     (if c = CR then
        (case cs of
           [] \<Rightarrow> [[]]
         | d # ds \<Rightarrow> if d = LF then [] # splitlines ds else [] # splitlines cs)
      else if is_linebreak c then [] # splitlines cs
      else (case splitlines cs of [] \<Rightarrow> [[c]] | l # ls \<Rightarrow> (c # l) # ls))"

text \<open>\<open>str(n)\<close> of a natural number, and \<open>%0wd\<close>.\<close>

fun str_nat :: "nat \<Rightarrow> str" where
  "str_nat n = (if n < 10 then [48 + n] else str_nat (n div 10) @ [48 + n mod 10])"

declare str_nat.simps [simp del]

definition zero_pad :: "nat \<Rightarrow> str \<Rightarrow> str" where
  "zero_pad w s = replicate (w - length s) 48 @ s"

text \<open>\<open>datetime.date\<close> and its \<open>str\<close>, the ISO form \<open>%04d-%02d-%02d\<close>.\<close>

record date =
  year :: nat
  month :: nat
  day :: nat

definition str_date :: "date \<Rightarrow> str" where
  "str_date d =
     zero_pad 4 (str_nat (year d)) @ u ''-'' @ zero_pad 2 (str_nat (month d)) @ u ''-'' @
     zero_pad 2 (str_nat (day d))"

section \<open>The file system\<close>

text \<open>
  The files that exist, by path, each with the text it holds. Text is written as it is
  (POSIX: \<open>\n\<close> is the line separator, so \<open>write\<close> translates nothing). A file opened
  for reading with \<open>open(path, "r", encoding="utf-8")\<close> is read in universal-newlines
  mode: \<open>\r\n\<close> and a lone \<open>\r\<close> both arrive as \<open>\n\<close>.

  Writing encodes the text as UTF-8, which has no encoding for the surrogate code points
  U+D800 to U+DFFF (55296 to 57343): \<open>f.write(s)\<close> raises \<open>UnicodeEncodeError\<close> when
  \<open>s\<close> holds one, before anything of \<open>s\<close> reaches the file. Failures of the
  operating system (a missing directory, permissions, a full disk) and files that are
  not UTF-8 are outside the model.
\<close>

type_synonym fs = "str \<Rightarrow> str option"

fun universal_newlines :: "str \<Rightarrow> str" where
  "universal_newlines [] = []"
| "universal_newlines [c] = [if c = CR then LF else c]"
| "universal_newlines (c # d # cs) =
     (if c = CR \<and> d = LF then LF # universal_newlines cs
      else (if c = CR then LF else c) # universal_newlines (d # cs))"

text \<open>\<open>open(path, "r").read()\<close> of a file that exists.\<close>

definition read_text :: "str \<Rightarrow> str" where
  "read_text raw = universal_newlines raw"

datatype error = UnicodeEncodeError

definition is_surrogate :: "nat \<Rightarrow> bool" where
  "is_surrogate c \<longleftrightarrow> 55296 \<le> c \<and> c \<le> 57343"

definition utf8_encodable :: "str \<Rightarrow> bool" where
  "utf8_encodable s = list_all (\<lambda>c. \<not> is_surrogate c) s"

text \<open>
  \<open>with open(path, "w", encoding="utf-8") as f: f.write(s)\<close>: the new file system and
  the exception, if one is raised. Opening creates the file or empties it; the write
  puts \<open>s\<close> there, or raises and leaves the file empty.
\<close>

definition write_file :: "fs \<Rightarrow> str \<Rightarrow> str \<Rightarrow> fs \<times> error option" where
  "write_file files path s =
     (if utf8_encodable s then (files(path \<mapsto> s), None)
      else (files(path \<mapsto> []), Some UnicodeEncodeError))"

text \<open>
  \<open>with open(path, "a", encoding="utf-8") as f: f.write(s)\<close>. Opening creates the file
  when it does not exist; the write adds \<open>s\<close> at the end, or raises and adds nothing.
\<close>

definition append_file :: "fs \<Rightarrow> str \<Rightarrow> str \<Rightarrow> fs \<times> error option" where
  "append_file files path s =
     (let old = (case files path of None \<Rightarrow> [] | Some old \<Rightarrow> old)
      in if utf8_encodable s then (files(path \<mapsto> old @ s), None)
         else (files(path \<mapsto> old), Some UnicodeEncodeError))"

text \<open>\<open>os.path.join(a, b)\<close> (posixpath).\<close>

definition path_join :: "str \<Rightarrow> str \<Rightarrow> str" where
  "path_join a b =
     (if prefix (u ''/'') b then b
      else if a = [] \<or> last a = 47 then a @ b
      else a @ u ''/'' @ b)"

section \<open>graveyard.py\<close>

definition GRAVEYARD_HEADER :: str where
  "GRAVEYARD_HEADER =
     u ''# '' @ [129718] @ u '' GRAVEYARD.md\<newline>'' @
     u ''\<newline>'' @
     u ''*Here lie the fallen code, remembered but no longer needed.*\<newline>'' @
     u ''\<newline>'' @
     u ''---\<newline>''"

definition get_graveyard_path :: "str \<Rightarrow> str" where
  "get_graveyard_path repo_root = path_join repo_root (u ''GRAVEYARD.md'')"

text \<open>
  \<open>ensure_graveyard\<close> returns nothing; what it gives here is the new file system. The
  only text it writes is the header, which holds no surrogate, so that its write raises
  nothing (\<open>write_header\<close> below) and the function has no exception to hand on.
\<close>

definition ensure_graveyard :: "fs \<Rightarrow> str \<Rightarrow> fs" where
  "ensure_graveyard files repo_root =
     (let path = get_graveyard_path repo_root
      in if files path = None then fst (write_file files path GRAVEYARD_HEADER) else files)"

text \<open>A metadata dict, and \<open>d.get(k, default)\<close>.\<close>

type_synonym dict = "str \<Rightarrow> str option"

definition dict_get :: "dict \<Rightarrow> str \<Rightarrow> str \<Rightarrow> str" where
  "dict_get d k dflt = (case d k of None \<Rightarrow> dflt | Some v \<Rightarrow> v)"

text \<open>The loop body of \<open>append_obituary\<close> that quotes one line of the obituary.\<close>

definition blockquote :: "str \<Rightarrow> str" where
  "blockquote line = (if strip line \<noteq> [] then u ''> '' @ line @ u ''\<newline>'' else u ''>\<newline>'')"

text \<open>
  \<open>entry_lines\<close> as \<open>append_obituary\<close> builds it (lines 50 to 73); \<open>today\<close> is
  \<open>date.today()\<close>. Code point 96 is the backquote and 34 the double quote of the
  "Last words" line.
\<close>

definition entry_lines :: "date \<Rightarrow> str \<Rightarrow> str \<Rightarrow> dict option \<Rightarrow> str list" where
  "entry_lines today fname obituary metadata =
     (let meta = (case metadata of None \<Rightarrow> Map.empty | Some m \<Rightarrow> m);
          born = dict_get meta (u ''born'') (u ''unknown'');
          died = dict_get meta (u ''died'') (str_date today);
          reason = dict_get meta (u ''reason'') (u ''Unknown'');
          last_words = dict_get meta (u ''last_words'') []
      in [u ''\<newline>## '' @ fname @ u ''\<newline>'',
          u ''**Lived:** '' @ born @ [32, 8212, 32] @ died @ u ''  \<newline>'',
          u ''**Cause of death:** '' @ reason @ u ''  \<newline>'']
         @ (if last_words \<noteq> []
            then [u ''**Last words:** '' @ [96, 34] @ take 80 last_words @ u ''...'' @ [34, 96, LF]]
            else [])
         @ [u ''\<newline>'']
         @ map blockquote (splitlines obituary)
         @ [u ''\<newline>---\<newline>''])"

text \<open>
  \<open>append_obituary\<close> gives the new file system and either the entry it returns or the
  exception that \<open>f.write(entry)\<close> raises (lines 77 to 81).
\<close>

definition append_obituary ::
  "date \<Rightarrow> fs \<Rightarrow> str \<Rightarrow> str \<Rightarrow> str \<Rightarrow> dict option \<Rightarrow> fs \<times> (error + str)" where
  "append_obituary today files repo_root fname obituary metadata =
     (let files1 = ensure_graveyard files repo_root;
          entry = concat (entry_lines today fname obituary metadata);
          graveyard_path = get_graveyard_path repo_root
      in case append_file files1 graveyard_path entry of
           (files2, None) \<Rightarrow> (files2, Inr entry)
         | (files2, Some e) \<Rightarrow> (files2, Inl e))"

text \<open>A record of \<open>list_obituaries\<close>: a dict with the keys filename, lived, cause, body.\<close>

record obituary =
  filename :: str
  lived :: str
  cause :: str
  body :: str

text \<open>
  \<open>re.split(r"\n## ", content)\<close>: the pieces between the occurrences of the four
  characters, found from left to right.
\<close>

fun cons_first :: "nat \<Rightarrow> str list \<Rightarrow> str list" where
  "cons_first a [] = [[a]]"
| "cons_first a (p # ps) = (a # p) # ps"

fun re_split_heading :: "str \<Rightarrow> str list" where
  "re_split_heading (a # b # c # d # rest) =
     (if a = LF \<and> b = 35 \<and> c = 35 \<and> d = 32 then [] # re_split_heading rest
      else cons_first a (re_split_heading (b # c # d # rest)))"
| "re_split_heading s = [s]"

text \<open>
  \<open>re.match(label + r"\s*(.+)", line)\<close> for a literal label, giving group 1. The
  whitespace run is greedy; when nothing is left after it, the matcher backtracks and
  the group is the last character of the run that \<open>.\<close> accepts (any but \<open>\n\<close>).
\<close>

definition label_match :: "str \<Rightarrow> str \<Rightarrow> str option" where
  "label_match label line =
     (if prefix label line then
        (let rest = drop (length label) line; after = dropWhile isspace rest
         in if after \<noteq> [] then Some (takeWhile (\<lambda>c. c \<noteq> LF) after)
            else (case filter (\<lambda>c. c \<noteq> LF) rest of [] \<Rightarrow> None | x # xs \<Rightarrow> Some [last (x # xs)]))
      else None)"

definition lived_match :: "str \<Rightarrow> str option" where
  "lived_match line = label_match (u ''**Lived:**'') line"

definition cause_match :: "str \<Rightarrow> str option" where
  "cause_match line = label_match (u ''**Cause of death:**'') line"

text \<open>\<open>re.match(r"^>\s?(.*)", line)\<close>, giving group 1; 62 is \<open>>\<close>.\<close>

definition body_match :: "str \<Rightarrow> str option" where
  "body_match line =
     (case line of
        [] \<Rightarrow> None
      | c # rest \<Rightarrow>
          if c = 62 then
            Some (takeWhile (\<lambda>c. c \<noteq> LF)
                   (case rest of [] \<Rightarrow> [] | d # ds \<Rightarrow> if isspace d then ds else rest))
          else None)"

text \<open>
  One turn of the loop over \<open>lines[1:]\<close>; the state is \<open>(lived, cause, body_lines)\<close>.
\<close>

definition scan_line :: "str \<times> str \<times> str list \<Rightarrow> str \<Rightarrow> str \<times> str \<times> str list" where
  "scan_line st line =
     (case st of (lv, cs, body_lines) \<Rightarrow>
        (case lived_match line of
           Some g \<Rightarrow> (rstrip_chars (u ''  '') (strip g), cs, body_lines)
         | None \<Rightarrow>
            (case cause_match line of
               Some g \<Rightarrow> (lv, rstrip_chars (u ''  '') (strip g), body_lines)
             | None \<Rightarrow>
                (case body_match line of
                   Some g \<Rightarrow> (lv, cs, body_lines @ [g])
                 | None \<Rightarrow> (lv, cs, body_lines)))))"

text \<open>The loop body over the sections; \<open>None\<close> is the \<open>continue\<close> of an empty section.\<close>

definition parse_section :: "str \<Rightarrow> obituary option" where
  "parse_section section =
     (case splitlines section of
        [] \<Rightarrow> None
      | first # others \<Rightarrow>
          (case foldl scan_line ([], [], []) others of (lv, cs, body_lines) \<Rightarrow>
             Some \<lparr>filename = strip first, lived = lv, cause = cs,
                   body = strip (join (u '' '') body_lines)\<rparr>))"

definition list_obituaries :: "fs \<Rightarrow> str \<Rightarrow> obituary list" where
  "list_obituaries files repo_root =
     (case files (get_graveyard_path repo_root) of
        None \<Rightarrow> []
      | Some raw \<Rightarrow> List.map_filter parse_section (tl (re_split_heading (read_text raw))))"

definition read_graveyard :: "fs \<Rightarrow> str \<Rightarrow> str" where
  "read_graveyard files repo_root =
     (case files (get_graveyard_path repo_root) of
        None \<Rightarrow> u ''No GRAVEYARD.md found. No code has been mourned yet.''
      | Some raw \<Rightarrow> read_text raw)"

section \<open>analyzer.py\<close>

text \<open>
  The two patterns of \<open>extract_symbols\<close> share their tail
  \<open>KW\s+([a-zA-Z_][a-zA-Z0-9_]*)\s*CLOSER\<close>. Every repetition in them is followed by
  a character its own class excludes, so the backtracking matcher can only succeed with
  each run taken whole. \<open>match_decl\<close> matches the tail at the keyword and gives the
  group and the text after the match.
\<close>

definition is_ident_start :: "nat \<Rightarrow> bool" where
  "is_ident_start c \<longleftrightarrow> (65 \<le> c \<and> c \<le> 90) \<or> (97 \<le> c \<and> c \<le> 122) \<or> c = 95"

definition is_ident_char :: "nat \<Rightarrow> bool" where
  "is_ident_char c \<longleftrightarrow> is_ident_start c \<or> (48 \<le> c \<and> c \<le> 57)"

definition match_decl :: "str \<Rightarrow> nat list \<Rightarrow> str \<Rightarrow> (str \<times> str) option" where
  "match_decl kw closers s =
     (if prefix kw s then
        (let s1 = drop (length kw) s; s2 = dropWhile isspace s1
         in if s1 \<noteq> s2 \<and> s2 \<noteq> [] \<and> is_ident_start (hd s2) then
              (let name = takeWhile is_ident_char s2;
                   s3 = dropWhile isspace (dropWhile is_ident_char s2)
               in if s3 \<noteq> [] \<and> hd s3 \<in> set closers then Some (name, tl s3) else None)
            else None)
      else None)"

text \<open>
  \<open>^\s*(?:async\s+)?def\s+([a-zA-Z_][a-zA-Z0-9_]*)\s*\(\<close> tried at the start of
  \<open>s\<close>: the group and the number of characters matched. 40 is the opening parenthesis.
\<close>

definition match_def :: "str \<Rightarrow> (str \<times> nat) option" where
  "match_def s =
     (let s1 = dropWhile isspace s;
          s2 = (if prefix (u ''async'') s1 \<and> drop 5 s1 \<noteq> dropWhile isspace (drop 5 s1)
                then dropWhile isspace (drop 5 s1) else s1)
      in (case match_decl (u ''def'') [40] s2 of
            None \<Rightarrow> None
          | Some (name, rest) \<Rightarrow> Some (name, length s - length rest)))"

text \<open>\<open>^\s*class\s+([a-zA-Z_][a-zA-Z0-9_]*)\s*[\(:]\<close>; 58 is the colon.\<close>

definition match_class :: "str \<Rightarrow> (str \<times> nat) option" where
  "match_class s =
     (case match_decl (u ''class'') [40, 58] (dropWhile isspace s) of
        None \<Rightarrow> None
      | Some (name, rest) \<Rightarrow> Some (name, length s - length rest))"

text \<open>
  \<open>re.findall(pattern, content, re.MULTILINE)\<close> for a pattern that starts with \<open>^\<close>,
  has one group and matches no empty text: the scan goes from left to right, tries the
  pattern where a line starts (at the start of the text and after every \<open>\n\<close>), and
  after a match goes on behind it. \<open>k\<close> counts the characters of the last match that
  are still to be passed, \<open>bol\<close> says that a line starts here.
\<close>

fun findall_from :: "(str \<Rightarrow> (str \<times> nat) option) \<Rightarrow> nat \<Rightarrow> bool \<Rightarrow> str \<Rightarrow> str list" where
  "findall_from m k bol [] = []"
| "findall_from m (Suc k) bol (c # cs) = findall_from m k (c = LF) cs"
| "findall_from m 0 bol (c # cs) =
     (case (if bol then m (c # cs) else None) of
        Some (name, n) \<Rightarrow> name # findall_from m (n - 1) (c = LF) cs
      | None \<Rightarrow> findall_from m 0 (c = LF) cs)"

definition findall :: "(str \<Rightarrow> (str \<times> nat) option) \<Rightarrow> str \<Rightarrow> str list" where
  "findall m content = findall_from m 0 True content"

record symbols =
  "functions" :: "str list"
  classes :: "str list"

definition extract_symbols :: "str \<Rightarrow> symbols" where
  "extract_symbols content =
     \<lparr>functions = findall match_def content, classes = findall match_class content\<rparr>"

text \<open>\<open>os.path.splitext(p)[1]\<close> (posixpath); 47 is the slash and 46 the dot.\<close>

definition splitext_ext :: "str \<Rightarrow> str" where
  "splitext_ext p =
     (let base = rev (takeWhile (\<lambda>c. c \<noteq> 47) (rev p))
      in if 46 \<in> set base then
           (let ext = rev (takeWhile (\<lambda>c. c \<noteq> 46) (rev base));
                stem = rev (tl (dropWhile (\<lambda>c. c \<noteq> 46) (rev base)))
            in if list_ex (\<lambda>c. c \<noteq> 46) stem then 46 # ext else [])
         else [])"

text \<open>
  \<open>str.lower\<close> is a parameter \<open>lower\<close> of the functions that call it, so that what is
  proved of them holds for the case folding of every Unicode version. \<open>ascii_lower\<close>
  is \<open>str.lower\<close> on ASCII text, for the examples.
\<close>

definition ascii_lower :: "str \<Rightarrow> str" where
  "ascii_lower s = map (\<lambda>c. if 65 \<le> c \<and> c \<le> 90 then c + 32 else c) s"

text \<open>The truth value of an \<open>Optional[str]\<close>, and the text it holds when it is true.\<close>

definition truthy :: "str option \<Rightarrow> bool" where
  "truthy x \<longleftrightarrow> (case x of None \<Rightarrow> False | Some s \<Rightarrow> s \<noteq> [])"

definition str_of :: "str option \<Rightarrow> str" where
  "str_of x = (case x of None \<Rightarrow> u ''None'' | Some s \<Rightarrow> s)"

definition ext_roles :: "(str \<times> str) list" where
  "ext_roles =
     [(u ''.py'', u ''faithfully served the Python runtime''),
      (u ''.js'', u ''brought interactivity to the browser''),
      (u ''.ts'', u ''ensured type safety across the codebase''),
      (u ''.java'', u ''upheld the Java virtual machine'' @ [39] @ u ''s grand tradition''),
      (u ''.rb'', u ''embraced the principle of programmer happiness''),
      (u ''.go'', u ''kept concurrency simple and efficient''),
      (u ''.rs'', u ''compiled without fear of memory errors''),
      (u ''.sh'', u ''automated the mundane so humans didn'' @ [39] @ u ''t have to''),
      (u ''.sql'', u ''guarded the sanctity of relational data''),
      (u ''.css'', u ''kept the UI beautiful and consistent''),
      (u ''.html'', u ''structured content for the world to see'')]"

definition generate_template_obituary ::
  "(str \<Rightarrow> str) \<Rightarrow> str \<Rightarrow> str \<Rightarrow> str option \<Rightarrow> str option \<Rightarrow> str option \<Rightarrow> str" where
  "generate_template_obituary lower fname content born died reason =
     (let syms = extract_symbols content;
          lines = splitlines content;
          ext = lower (splitext_ext fname);
          role = (case map_of ext_roles ext of
                    None \<Rightarrow> u ''contributed to the project'' | Some r \<Rightarrow> r);
          lifetime =
            (if truthy born \<and> truthy died then u '' from '' @ str_of born @ u '' to '' @ str_of died
             else if truthy died then u '' until '' @ str_of died
             else []);
          cause_clause =
            (if truthy reason then u '' due to: '' @ str_of reason
             else u '' in the natural course of refactoring'');
          all_symbols = classes syms @ functions syms;
          survivor_line =
            (if all_symbols \<noteq> [] then
               u '' It is survived by the memories of '' @ [96] @
               join ([96] @ u '', '' @ [96]) (take 3 all_symbols) @ [96] @ u ''.''
             else []);
          non_empty =
            map strip (filter (\<lambda>line. strip line \<noteq> [] \<and> \<not> prefix (u ''#'') (strip line)) lines);
          last_words =
            (case non_empty of
               [] \<Rightarrow> []
             | first # _ \<Rightarrow>
                 u ''\<newline>\<newline>*Last words: '' @ [34] @ take 60 first @ u ''...'' @ [34] @ u ''*'')
      in fname @ u '' '' @ role @ lifetime @ u '', spanning '' @ str_nat (length lines) @
         u '' lines of code. '' @ u ''It was deleted'' @ cause_clause @ u ''.'' @ survivor_line @
         last_words)"

text \<open>
  The external text service. Everything inside the \<open>try\<close> of \<open>_generate_ai_obituary\<close>
  that is not this repository's code (the import, the client, the call) is the
  parameter \<open>service\<close>: given the key and the prompt it either raises an exception
  \<open>e\<close> (an \<open>Exception\<close>, which is what the handler catches), of which only
  \<open>str(e)\<close> is used, or gives a message, of which only the texts of its content
  blocks are used.
\<close>

datatype reply = Raised str | Message "str list"

definition build_prompt :: "str \<Rightarrow> str \<Rightarrow> str option \<Rightarrow> str option \<Rightarrow> str option \<Rightarrow> str" where
  "build_prompt fname content reason born died =
     (let syms = extract_symbols content;
          lines = splitlines content;
          lifetime_str =
            (if truthy born \<and> truthy died then
               u ''It was created on '' @ str_of born @ u '' and deleted on '' @ str_of died @ u ''.''
             else if truthy died then u ''It was deleted on '' @ str_of died @ u ''.''
             else []);
          cause_str =
            (if truthy reason then u ''Cause of death: '' @ str_of reason
             else u ''Cause of death: unknown (likely refactoring or replacement).'');
          symbols_str =
            (if classes syms \<noteq> [] \<or> functions syms \<noteq> [] then
               join (u ''. '')
                 ((if classes syms \<noteq> [] then [u ''Classes: '' @ join (u '', '') (classes syms)] else [])
                  @ (if functions syms \<noteq> []
                     then [u ''Functions: '' @ join (u '', '') (functions syms)] else []))
               @ u ''.''
             else []);
          content_preview = (if length content > 2000 then take 2000 content else content)
      in u ''You are writing a poetic, brief obituary for a deleted piece of code.\<newline>'' @
         u ''Write 3-5 sentences in a respectful, slightly melancholy tone like an obituary in a newspaper.\<newline>'' @
         u ''Mention what the code did, how long it lived, and what caused its deletion.\<newline>'' @
         u ''Be creative but concise. Do not use markdown headers. Plain prose only.\<newline>'' @
         u ''\<newline>'' @
         u ''File: '' @ fname @ u ''\<newline>'' @
         u ''Lines of code: '' @ str_nat (length lines) @ u ''\<newline>'' @
         lifetime_str @ u ''\<newline>'' @
         cause_str @ u ''\<newline>'' @
         symbols_str @ u ''\<newline>'' @
         u ''\<newline>'' @
         u ''Code content (preview):\<newline>'' @
         [96, 96, 96, LF] @
         content_preview @ u ''\<newline>'' @
         [96, 96, 96, LF] @
         u ''\<newline>'' @
         u ''Write the obituary now:'')"

text \<open>
  \<open>_generate_ai_obituary\<close>. The exceptions of the \<open>try\<close> block are the one the
  service raises and the \<open>IndexError\<close> of \<open>message.content[0]\<close> on a message without
  content; \<open>except Exception as e\<close> turns both into the template with a note.
\<close>

definition generate_ai_obituary ::
  "(str \<Rightarrow> str) \<Rightarrow> (str \<Rightarrow> str \<Rightarrow> reply) \<Rightarrow> str \<Rightarrow> str \<Rightarrow> str option \<Rightarrow> str option \<Rightarrow>
     str option \<Rightarrow> str \<Rightarrow> str" where
  "generate_ai_obituary lower service fname content reason born died api_key =
     (let unavailable = (\<lambda>e. generate_template_obituary lower fname content born died reason @
                               u ''\<newline>\<newline>*(AI obituary unavailable: '' @ e @ u '')*'')
      in case service api_key (build_prompt fname content reason born died) of
           Raised e \<Rightarrow> unavailable e
         | Message blocks \<Rightarrow>
             (case blocks of
                [] \<Rightarrow> unavailable (u ''list index out of range'')
              | text0 # _ \<Rightarrow> strip text0))"

text \<open>
  \<open>generate_obituary\<close>; \<open>api_key\<close> is \<open>os.environ.get("ANTHROPIC_API_KEY")\<close>.
\<close>

definition generate_obituary ::
  "(str \<Rightarrow> str) \<Rightarrow> str option \<Rightarrow> (str \<Rightarrow> str \<Rightarrow> reply) \<Rightarrow> str \<Rightarrow> str \<Rightarrow> str option \<Rightarrow>
     str option \<Rightarrow> str option \<Rightarrow> str" where
  "generate_obituary lower api_key service fname content reason born died =
     (if truthy api_key then
        generate_ai_obituary lower service fname content reason born died (str_of api_key)
      else generate_template_obituary lower fname content born died reason)"

section \<open>Notions the properties are stated with\<close>

text \<open>
  \<open>in_order names s\<close>: the names stand in \<open>s\<close> one after the other, in the order of the
  list and without overlapping.
\<close>

inductive in_order :: "str list \<Rightarrow> str \<Rightarrow> bool" where
  in_order_Nil: "in_order [] s"
| in_order_Cons: "in_order names post \<Longrightarrow> in_order (name # names) (pre @ name @ post)"

definition is_identifier :: "str \<Rightarrow> bool" where
  "is_identifier name \<longleftrightarrow> name \<noteq> [] \<and> is_ident_start (hd name) \<and> list_all is_ident_char name"

text \<open>
  \<open>lf_hash_free s\<close>: no line feed of \<open>s\<close> has a \<open>#\<close> (35) directly behind it, so the
  heading marker \<open>\n## \<close> does not occur in \<open>s\<close>.
\<close>

fun lf_hash_free :: "str \<Rightarrow> bool" where
  "lf_hash_free (a # b # s) = (\<not> (a = LF \<and> b = 35) \<and> lf_hash_free (b # s))"
| "lf_hash_free s = True"

section \<open>Facts about text\<close>

subsection \<open>Writing\<close>

lemma header_encodable: "utf8_encodable GRAVEYARD_HEADER"
  by (simp add: utf8_encodable_def GRAVEYARD_HEADER_def u_def is_surrogate_def)

lemma write_header: "write_file files path GRAVEYARD_HEADER = (files(path \<mapsto> GRAVEYARD_HEADER), None)"
  by (simp add: write_file_def header_encodable)

lemma ensure_graveyard_eq:
  "ensure_graveyard files repo_root =
     (if files (get_graveyard_path repo_root) = None
      then files(get_graveyard_path repo_root \<mapsto> GRAVEYARD_HEADER) else files)"
  by (simp add: ensure_graveyard_def write_header Let_def)

subsection \<open>Lines\<close>




declare splitlines.simps(2) [simp del]






subsection \<open>Universal newlines\<close>

lemma universal_newlines_id: "CR \<notin> set s \<Longrightarrow> universal_newlines s = s"
  by (induction s rule: universal_newlines.induct) auto

lemma universal_newlines_append:
  "old = [] \<or> last old \<noteq> CR \<Longrightarrow>
   universal_newlines (old @ b) = universal_newlines old @ universal_newlines b"
proof (induction old rule: universal_newlines.induct)
  case 1
  then show ?case by simp
next
  case (2 c)
  then show ?case by (cases b) auto
next
  case (3 c d cs)
  then show ?case by (auto split: if_splits)
qed

subsection \<open>Splitting at the heading marker\<close>

lemma cons_first_append: "xs \<noteq> [] \<Longrightarrow> cons_first a (xs @ ys) = cons_first a xs @ ys"
  by (cases xs) auto

lemma re_split_heading_nonempty: "re_split_heading s \<noteq> []"
  by (induction s rule: re_split_heading.induct) (auto simp: neq_Nil_conv elim: cons_first.elims)



lemma re_split_heading_free: "lf_hash_free s \<Longrightarrow> re_split_heading s = [s]"
  by (induction s rule: re_split_heading.induct) auto

lemma re_split_heading_append:
  "re_split_heading (old @ LF # 35 # 35 # 32 # rest) = re_split_heading old @ re_split_heading rest"
proof (induction old rule: re_split_heading.induct)
  case (1 a b c d r)
  then show ?case by (simp add: cons_first_append re_split_heading_nonempty)
qed simp_all

subsection \<open>The text of an entry\<close>















subsection \<open>Reading the log back\<close>








lemma map_filter_app: "List.map_filter f (xs @ ys) = List.map_filter f xs @ List.map_filter f ys"
  by (simp add: List.map_filter_def)

lemma sections_after_append:
  assumes prior: "prior = [] \<or> last prior \<noteq> CR"
    and entry: "CR \<notin> set (LF # 35 # 35 # 32 # tail)" "lf_hash_free tail"
  shows "tl (re_split_heading (read_text (prior @ LF # 35 # 35 # 32 # tail)))
           = tl (re_split_heading (read_text prior)) @ [tail]"
proof -
  have "read_text (prior @ LF # 35 # 35 # 32 # tail) = read_text prior @ LF # 35 # 35 # 32 # tail"
    unfolding read_text_def
    using universal_newlines_append [OF prior] universal_newlines_id [OF entry(1)] by simp
  then have "re_split_heading (read_text (prior @ LF # 35 # 35 # 32 # tail))
      = re_split_heading (read_text prior) @ [tail]"
    by (simp add: re_split_heading_append re_split_heading_free [OF entry(2)])
  then show ?thesis using re_split_heading_nonempty [of "read_text prior"] by simp
qed


lemma header_last: "GRAVEYARD_HEADER = [] \<or> last GRAVEYARD_HEADER \<noteq> CR"
  by (simp add: GRAVEYARD_HEADER_def u_def)









subsection \<open>Finding declarations\<close>

lemma contains_sublist: "contains sub s \<longleftrightarrow> sublist sub s"
  by (induction s) (simp_all add: sublist_Cons_right)

lemma in_order_prepend:
  assumes "in_order names t"
  shows "in_order names (p @ t)"
  using assms
proof (cases rule: in_order.cases)
  case in_order_Nil
  then show ?thesis by (simp add: in_order.in_order_Nil)
next
  case (in_order_Cons ns post n pre)
  have "in_order (n # ns) ((p @ pre) @ n @ post)"
    using in_order_Cons(3) by (rule in_order.in_order_Cons)
  then show ?thesis using in_order_Cons by simp
qed

lemma match_decl_Some:
  assumes "match_decl kw closers s = Some (name, rest)"
  shows "is_identifier name" and "\<exists>pre mid. s = pre @ name @ mid @ rest \<and> mid \<noteq> []"
    and "prefix kw s"
proof -
  define s1 where "s1 = drop (length kw) s"
  define s2 where "s2 = dropWhile isspace s1"
  define s3 where "s3 = dropWhile isspace (dropWhile is_ident_char s2)"
  have pk: "prefix kw s" using assms by (auto simp: match_decl_def split: if_splits)
  have c1: "s2 \<noteq> []" "is_ident_start (hd s2)"
    using assms by (auto simp: match_decl_def Let_def s1_def s2_def split: if_splits)
  have c2: "s3 \<noteq> []" and nm: "name = takeWhile is_ident_char s2" and rs: "rest = tl s3"
    using assms by (auto simp: match_decl_def Let_def s1_def s2_def s3_def split: if_splits)
  show "prefix kw s" by (rule pk)
  have "name \<noteq> []" using c1 nm by (cases s2) (auto simp: is_ident_char_def)
  moreover have "hd name = hd s2" using c1 nm by (cases s2) (auto simp: is_ident_char_def)
  moreover have "list_all is_ident_char name"
    unfolding nm list_all_iff by (auto dest: set_takeWhileD)
  ultimately show "is_identifier name" using c1 by (simp add: is_identifier_def)
  have "s = kw @ s1" using pk by (auto simp: s1_def prefix_def)
  also have "s1 = takeWhile isspace s1 @ s2" by (simp add: s2_def)
  also have "s2 = name @ dropWhile is_ident_char s2" by (simp add: nm)
  also have "dropWhile is_ident_char s2 = takeWhile isspace (dropWhile is_ident_char s2) @ s3"
    by (simp add: s3_def)
  also have "s3 = [hd s3] @ rest" using c2 rs by simp
  finally have "s = (kw @ takeWhile isspace s1) @ name
      @ (takeWhile isspace (dropWhile is_ident_char s2) @ [hd s3]) @ rest"
    by simp
  then show "\<exists>pre mid. s = pre @ name @ mid @ rest \<and> mid \<noteq> []" by blast
qed


lemma split_at_rest:
  assumes "s = front @ rest" and "n = length s - length rest"
  shows "take n s = front" and "n = length front"
  using assms by simp_all

lemma match_def_Some:
  assumes "match_def s = Some (name, n)"
  shows "is_identifier name" and "0 < n \<and> n \<le> length s \<and> (\<exists>pre post. take n s = pre @ name @ post)"
    and "sublist (u ''def'') s"
proof -
  define s1 where "s1 = dropWhile isspace s"
  define s2 where "s2 = (if prefix (u ''async'') s1 \<and> drop 5 s1 \<noteq> dropWhile isspace (drop 5 s1)
                         then dropWhile isspace (drop 5 s1) else s1)"
  have eq: "match_def s = (case match_decl (u ''def'') [40] s2 of None \<Rightarrow> None
      | Some (name, rest) \<Rightarrow> Some (name, length s - length rest))"
    by (simp add: match_def_def Let_def s1_def s2_def)
  obtain rest where md: "match_decl (u ''def'') [40] s2 = Some (name, rest)"
    and n: "n = length s - length rest"
    using assms unfolding eq by (auto split: option.splits)
  have "\<exists>w. s = w @ s1" by (rule exI [of _ "takeWhile isspace s"]) (simp add: s1_def)
  then obtain w where w: "s = w @ s1" by blast
  have "\<exists>q. s1 = q @ s2"
  proof (cases "prefix (u ''async'') s1 \<and> drop 5 s1 \<noteq> dropWhile isspace (drop 5 s1)")
    case True
    have "s2 = dropWhile isspace (drop 5 s1)" using True by (simp add: s2_def)
    then have "s1 = (take 5 s1 @ takeWhile isspace (drop 5 s1)) @ s2" by simp
    then show ?thesis by (rule exI)
  next
    case False
    then have "s2 = s1" unfolding s2_def by (simp only: if_False)
    then have "s1 = [] @ s2" by simp
    then show ?thesis by (rule exI)
  qed
  then obtain q where q: "s1 = q @ s2" by blast
  obtain pre mid where dec: "s2 = pre @ name @ mid @ rest" "mid \<noteq> []"
    using match_decl_Some(2) [OF md] by blast
  show "is_identifier name" by (rule match_decl_Some(1) [OF md])
  have s: "s = ((w @ q @ pre) @ name @ mid) @ rest" by (simp add: w q dec(1))
  note t = split_at_rest [OF s n]
  have "\<exists>pre post. take n s = pre @ name @ post" using t(1) by blast
  moreover have "0 < n" using t(2) dec(2) by simp
  moreover have "n \<le> length s" using n by simp
  ultimately show "0 < n \<and> n \<le> length s \<and> (\<exists>pre post. take n s = pre @ name @ post)" by blast
  have "prefix (u ''def'') s2" by (rule match_decl_Some(3) [OF md])
  then obtain z where "s2 = u ''def'' @ z" by (auto simp: prefix_def)
  then have "s = (w @ q) @ u ''def'' @ z" by (simp add: w q)
  then show "sublist (u ''def'') s" unfolding sublist_def by blast
qed

lemma match_class_Some:
  assumes "match_class s = Some (name, n)"
  shows "is_identifier name" and "0 < n \<and> n \<le> length s \<and> (\<exists>pre post. take n s = pre @ name @ post)"
    and "sublist (u ''class'') s"
proof -
  define s2 where "s2 = dropWhile isspace s"
  have eq: "match_class s = (case match_decl (u ''class'') [40, 58] s2 of None \<Rightarrow> None
      | Some (name, rest) \<Rightarrow> Some (name, length s - length rest))"
    by (simp add: match_class_def s2_def)
  obtain rest where md: "match_decl (u ''class'') [40, 58] s2 = Some (name, rest)"
    and n: "n = length s - length rest"
    using assms unfolding eq by (auto split: option.splits)
  have "\<exists>w. s = w @ s2" by (rule exI [of _ "takeWhile isspace s"]) (simp add: s2_def)
  then obtain w where w: "s = w @ s2" by blast
  obtain pre mid where dec: "s2 = pre @ name @ mid @ rest" "mid \<noteq> []"
    using match_decl_Some(2) [OF md] by blast
  show "is_identifier name" by (rule match_decl_Some(1) [OF md])
  have s: "s = ((w @ pre) @ name @ mid) @ rest" by (simp add: w dec(1))
  note t = split_at_rest [OF s n]
  have "\<exists>pre post. take n s = pre @ name @ post" using t(1) by blast
  moreover have "0 < n" using t(2) dec(2) by simp
  moreover have "n \<le> length s" using n by simp
  ultimately show "0 < n \<and> n \<le> length s \<and> (\<exists>pre post. take n s = pre @ name @ post)" by blast
  have "prefix (u ''class'') s2" by (rule match_decl_Some(3) [OF md])
  then obtain z where "s2 = u ''class'' @ z" by (auto simp: prefix_def)
  then have "s = w @ u ''class'' @ z" by (simp add: w)
  then show "sublist (u ''class'') s" unfolding sublist_def by blast
qed

lemma findall_from_in_order:
  assumes "\<And>s name n. m s = Some (name, n) \<Longrightarrow>
             0 < n \<and> n \<le> length s \<and> (\<exists>pre post. take n s = pre @ name @ post)"
  shows "in_order (findall_from m k bol s) (drop k s)"
  using assms
proof (induction m k bol s rule: findall_from.induct)
  case (1 m k bol)
  show ?case by (simp add: in_order.in_order_Nil)
next
  case (2 m k bol c cs)
  then show ?case by simp
next
  case (3 m bol c cs)
  show ?case
  proof (cases "if bol then m (c # cs) else None")
    case None
    have "in_order (findall_from m 0 (c = LF) cs) (drop 0 cs)"
      using "3.IH"(1) [OF None] "3.prems" by blast
    then have "in_order (findall_from m 0 (c = LF) cs) ([c] @ cs)"
      using in_order_prepend [of _ cs "[c]"] by simp
    then show ?thesis using None by simp
  next
    case (Some a)
    obtain name n where a: "a = (name, n)" by (cases a)
    have mm: "m (c # cs) = Some (name, n)" using Some a by (auto split: if_splits)
    have IH: "in_order (findall_from m (n - 1) (c = LF) cs) (drop (n - 1) cs)"
      using "3.IH"(2) [OF Some a [symmetric]] "3.prems" by blast
    obtain pre post where n: "0 < n" and tk: "take n (c # cs) = pre @ name @ post"
      using "3.prems" [OF mm] by blast
    have dr: "drop n (c # cs) = drop (n - 1) cs" using n by (cases n) simp_all
    have "in_order (findall_from m (n - 1) (c = LF) cs) (post @ drop (n - 1) cs)"
      using IH by (rule in_order_prepend)
    then have step: "in_order (name # findall_from m (n - 1) (c = LF) cs)
        (pre @ name @ post @ drop (n - 1) cs)"
      by (rule in_order.in_order_Cons)
    have eq: "c # cs = pre @ name @ post @ drop (n - 1) cs"
      using append_take_drop_id [of n "c # cs"] tk dr by simp
    have res: "findall_from m 0 bol (c # cs) = name # findall_from m (n - 1) (c = LF) cs"
      using Some a by simp
    have "in_order (name # findall_from m (n - 1) (c = LF) cs) (c # cs)"
      by (subst eq) (rule step)
    then show ?thesis by (simp only: res drop_0)
  qed
qed

lemma findall_from_identifiers:
  assumes "\<And>s name n. m s = Some (name, n) \<Longrightarrow> is_identifier name"
  shows "list_all is_identifier (findall_from m k bol s)"
  using assms
proof (induction m k bol s rule: findall_from.induct)
  case (1 m k bol)
  show ?case by simp
next
  case (2 m k bol c cs)
  then show ?case by simp
next
  case (3 m bol c cs)
  show ?case
  proof (cases "if bol then m (c # cs) else None")
    case None
    have "list_all is_identifier (findall_from m 0 (c = LF) cs)"
      using "3.IH"(1) [OF None] "3.prems" by blast
    then show ?thesis using None by simp
  next
    case (Some a)
    obtain name n where a: "a = (name, n)" by (cases a)
    have mm: "m (c # cs) = Some (name, n)" using Some a by (auto split: if_splits)
    have "list_all is_identifier (findall_from m (n - 1) (c = LF) cs)"
      using "3.IH"(2) [OF Some a [symmetric]] "3.prems" by blast
    moreover have "is_identifier name" using "3.prems" [OF mm] .
    ultimately show ?thesis using Some a by simp
  qed
qed

lemma findall_from_no_match:
  assumes "\<And>t. suffix t s \<Longrightarrow> m t = None"
  shows "findall_from m k bol s = []"
  using assms
proof (induction m k bol s rule: findall_from.induct)
  case (1 m k bol)
  show ?case by simp
next
  case (2 m k bol c cs)
  have "\<And>t. suffix t cs \<Longrightarrow> m t = None" using "2.prems" by (simp add: suffix_Cons)
  then show ?case using "2.IH" by simp
next
  case (3 m bol c cs)
  have none: "(if bol then m (c # cs) else None) = None" using "3.prems" [of "c # cs"] by simp
  have "\<And>t. suffix t cs \<Longrightarrow> m t = None" using "3.prems" by (simp add: suffix_Cons)
  then have "findall_from m 0 (c = LF) cs = []" using "3.IH"(1) [OF none] by blast
  then show ?case using none by simp
qed

lemma no_keyword_no_match_def: "\<not> sublist (u ''def'') s \<Longrightarrow> suffix t s \<Longrightarrow> match_def t = None"
proof (rule ccontr)
  assume ns: "\<not> sublist (u ''def'') s" and suf: "suffix t s" and "match_def t \<noteq> None"
  then obtain name n where "match_def t = Some (name, n)" by auto
  then have "sublist (u ''def'') t" by (rule match_def_Some(3))
  then show False using ns suf by (meson sublist_order.order_trans suffix_imp_sublist)
qed

lemma no_keyword_no_match_class: "\<not> sublist (u ''class'') s \<Longrightarrow> suffix t s \<Longrightarrow> match_class t = None"
proof (rule ccontr)
  assume ns: "\<not> sublist (u ''class'') s" and suf: "suffix t s" and "match_class t \<noteq> None"
  then obtain name n where "match_class t = Some (name, n)" by auto
  then have "sublist (u ''class'') t" by (rule match_class_Some(3))
  then show False using ns suf by (meson sublist_order.order_trans suffix_imp_sublist)
qed

subsection \<open>What a call of \<open>append_obituary\<close> does\<close>

lemma append_obituary_eq:
  "append_obituary today files repo_root fname ob metadata =
     (if utf8_encodable (concat (entry_lines today fname ob metadata))
      then (files(get_graveyard_path repo_root \<mapsto>
              (case files (get_graveyard_path repo_root) of None \<Rightarrow> GRAVEYARD_HEADER | Some old \<Rightarrow> old)
              @ concat (entry_lines today fname ob metadata)),
            Inr (concat (entry_lines today fname ob metadata)))
      else (files(get_graveyard_path repo_root \<mapsto>
              (case files (get_graveyard_path repo_root) of None \<Rightarrow> GRAVEYARD_HEADER | Some old \<Rightarrow> old)),
            Inl UnicodeEncodeError))"
  by (auto simp add: append_obituary_def ensure_graveyard_eq append_file_def Let_def
      split: option.splits)

lemma surrogate_entry_text:
  "concat (entry_lines \<lparr>year = 2024, month = 3, day = 9\<rparr> (u ''a.py'') (55296 # u ''Gone.'') None)
     = u ''\<newline>## a.py\<newline>**Lived:** unknown '' @ [8212] @
       u '' 2024-03-09  \<newline>**Cause of death:** Unknown  \<newline>\<newline>> '' @ [55296] @ u ''Gone.\<newline>\<newline>---\<newline>''"
  by (simp add: entry_lines_def dict_get_def Let_def u_def str_date_def
      zero_pad_def str_nat.simps blockquote_def strip_def isspace_def is_linebreak_def
      splitlines.simps)

lemma plain_entry_text:
  "concat (entry_lines \<lparr>year = 2024, month = 3, day = 9\<rparr> (u ''a.py'') (u ''Gone.'') None)
     = u ''\<newline>## a.py\<newline>**Lived:** unknown '' @ [8212] @
       u '' 2024-03-09  \<newline>**Cause of death:** Unknown  \<newline>\<newline>> Gone.\<newline>\<newline>---\<newline>''"
  by (simp add: entry_lines_def dict_get_def Let_def u_def str_date_def
      zero_pad_def str_nat.simps blockquote_def strip_def isspace_def is_linebreak_def
      splitlines.simps)

subsection \<open>The heading line read back\<close>





lemma contains_Cons: "contains sub s \<Longrightarrow> contains sub (c # s)"
  by simp









subsection \<open>Text that UTF-8 can encode\<close>


lemma utf8_encodable_append [simp]:
  "utf8_encodable (a @ b) \<longleftrightarrow> utf8_encodable a \<and> utf8_encodable b"
  by (simp add: utf8_encodable_def)

lemma utf8_encodable_Cons [simp]:
  "utf8_encodable (c # s) \<longleftrightarrow> \<not> is_surrogate c \<and> utf8_encodable s"
  by (simp add: utf8_encodable_def)

lemma utf8_encodable_Nil [simp]: "utf8_encodable []"
  by (simp add: utf8_encodable_def)







section \<open>The graveyard store\<close>

text \<open>
  C5. Creating the log is idempotent. In a directory without the log (whatever other
  files it holds), \<open>ensure_graveyard\<close> called twice leaves the same file system as
  called once, and the log then holds the header; when the log exists, with any content
  \<open>c\<close>, a call changes nothing.
\<close>

theorem ensure_graveyard_idempotent:
  "ensure_graveyard (ensure_graveyard (files(get_graveyard_path repo_root := None)) repo_root) repo_root
     = ensure_graveyard (files(get_graveyard_path repo_root := None)) repo_root
   \<and> ensure_graveyard (files(get_graveyard_path repo_root := None)) repo_root
     = files(get_graveyard_path repo_root \<mapsto> GRAVEYARD_HEADER)
   \<and> ensure_graveyard (files(get_graveyard_path repo_root \<mapsto> c)) repo_root
     = files(get_graveyard_path repo_root \<mapsto> c)"
  by (simp add: ensure_graveyard_eq)

text \<open>
  C4, as the code has it. For every file system before the call, \<open>append_obituary\<close>
  leaves every other file as it was. When UTF-8 can encode the record text, the call
  returns that text and the log holds what it held before (the header, when it did not
  exist) followed by exactly the text returned. When it cannot (the text holds a
  surrogate code point), the call raises \<open>UnicodeEncodeError\<close>, returns nothing and
  appends nothing: the log holds what it held before (the header, when it did not
  exist).
\<close>

theorem append_obituary_appends:
  "append_obituary today files repo_root fname obituary metadata =
     (if utf8_encodable (concat (entry_lines today fname obituary metadata))
      then (files(get_graveyard_path repo_root \<mapsto>
              (case files (get_graveyard_path repo_root) of None \<Rightarrow> GRAVEYARD_HEADER | Some old \<Rightarrow> old)
              @ concat (entry_lines today fname obituary metadata)),
            Inr (concat (entry_lines today fname obituary metadata)))
      else (files(get_graveyard_path repo_root \<mapsto>
              (case files (get_graveyard_path repo_root) of None \<Rightarrow> GRAVEYARD_HEADER | Some old \<Rightarrow> old)),
            Inl UnicodeEncodeError))"
  by (rule append_obituary_eq)

text \<open>
  C4 as stated fails: an obituary text that starts with the surrogate U+D800 reaches no
  log and no caller. The call raises, and the log, created by the call, holds the
  header alone.
\<close>

theorem append_obituary_raises_counterexample:
  "append_obituary \<lparr>year = 2024, month = 3, day = 9\<rparr> Map.empty (u ''repo'') (u ''a.py'')
     (55296 # u ''Gone.'') None
   = ([get_graveyard_path (u ''repo'') \<mapsto> GRAVEYARD_HEADER], Inl UnicodeEncodeError)"
  by (simp add: append_obituary_eq surrogate_entry_text) (simp add: utf8_encodable_def is_surrogate_def u_def)

text \<open>
  C1, as the code has it. When the metadata (absent, or a dict) has no entry for
  \<open>reason\<close>, the entry that \<open>append_obituary\<close> formats is the concatenation of
  \<open>entry_lines\<close>, whose third line is the "Cause of death" line with the fallback text
  \<open>Unknown\<close>; that entry is what the call appends and returns (unless UTF-8 cannot
  encode it, when the call raises). The text \<open>Deleted (cause unknown)\<close> is what the
  command line passes as the reason (cli.py, line 120); the store's own fallback is
  \<open>Unknown\<close>.
\<close>

theorem cause_line_fallback:
  assumes "(case metadata of None \<Rightarrow> Map.empty | Some m \<Rightarrow> m) (u ''reason'') = None"
  shows "snd (append_obituary today files repo_root fname obituary metadata)
           = (if utf8_encodable (concat (entry_lines today fname obituary metadata))
              then Inr (concat (entry_lines today fname obituary metadata))
              else Inl UnicodeEncodeError)
         \<and> entry_lines today fname obituary metadata ! 2 = u ''**Cause of death:** Unknown  \<newline>''"
  using assms by (simp add: append_obituary_eq) (simp add: entry_lines_def dict_get_def Let_def u_def)

theorem cause_line_fallback_witness:
  "(case Some [u ''born'' \<mapsto> u ''2020-01-01''] of None \<Rightarrow> Map.empty | Some m \<Rightarrow> m) (u ''reason'') = None
   \<and> entry_lines \<lparr>year = 2024, month = 3, day = 9\<rparr> (u ''a.py'') (u ''Gone.'')
        (Some [u ''born'' \<mapsto> u ''2020-01-01'']) ! 2 = u ''**Cause of death:** Unknown  \<newline>''"
  using cause_line_fallback [of "Some [u ''born'' \<mapsto> u ''2020-01-01'']"
      "\<lparr>year = 2024, month = 3, day = 9\<rparr>" Map.empty "u ''repo''" "u ''a.py''" "u ''Gone.''"]
  by (simp add: u_def)

text \<open>
  C1 as stated fails: without metadata, on 2024-03-09, the entry for \<open>a.py\<close> is the
  text below, and \<open>Deleted (cause unknown)\<close> is nowhere in it.
\<close>

theorem cause_line_fallback_counterexample:
  "snd (append_obituary \<lparr>year = 2024, month = 3, day = 9\<rparr> Map.empty (u ''repo'') (u ''a.py'')
         (u ''Gone.'') None)
     = Inr (u ''\<newline>## a.py\<newline>**Lived:** unknown '' @ [8212] @
       u '' 2024-03-09  \<newline>**Cause of death:** Unknown  \<newline>\<newline>> Gone.\<newline>\<newline>---\<newline>'')
   \<and> \<not> contains (u ''Deleted (cause unknown)'')
        (u ''\<newline>## a.py\<newline>**Lived:** unknown '' @ [8212] @
         u '' 2024-03-09  \<newline>**Cause of death:** Unknown  \<newline>\<newline>> Gone.\<newline>\<newline>---\<newline>'')"
  by (simp add: append_obituary_eq plain_entry_text) (simp add: utf8_encodable_def is_surrogate_def u_def)

text \<open>
  C9, as the code has it. Without the log, \<open>list_obituaries\<close> gives the empty list and
  \<open>read_graveyard\<close> a text that contains \<open>No GRAVEYARD.md found\<close>. With the log,
  \<open>read_graveyard\<close> gives its whole content as text mode reads it: every carriage
  return with a line feed behind it, and every other carriage return, arrives as one
  line feed. So the content comes back verbatim when it has no carriage return.
\<close>

theorem missing_log:
  "list_obituaries (files(get_graveyard_path repo_root := None)) repo_root = []
   \<and> contains (u ''No GRAVEYARD.md found'')
       (read_graveyard (files(get_graveyard_path repo_root := None)) repo_root)
   \<and> read_graveyard (files(get_graveyard_path repo_root \<mapsto> c)) repo_root = universal_newlines c
   \<and> (CR \<notin> set c \<longrightarrow> read_graveyard (files(get_graveyard_path repo_root \<mapsto> c)) repo_root = c)"
  by (simp add: list_obituaries_def read_graveyard_def read_text_def universal_newlines_id)
    (simp add: u_def)

theorem missing_log_witness:
  "CR \<notin> set (u ''abc'')
   \<and> read_graveyard ([get_graveyard_path (u ''repo'') \<mapsto> u ''abc'']) (u ''repo'') = u ''abc''"
  using missing_log [of Map.empty "u ''repo''" "u ''abc''"] by (simp add: u_def)

text \<open>
  C9 as stated fails: a log that holds \<open>a\r\nb\<close> is read as \<open>a\nb\<close>, which is not
  its content verbatim.
\<close>

theorem read_graveyard_verbatim_counterexample:
  "read_graveyard ([get_graveyard_path (u ''repo'') \<mapsto> [97, CR, LF, 98]]) (u ''repo'') = [97, LF, 98]
   \<and> read_graveyard ([get_graveyard_path (u ''repo'') \<mapsto> [97, CR, LF, 98]]) (u ''repo'')
       \<noteq> [97, CR, LF, 98]"
  by (simp add: read_graveyard_def read_text_def)




section \<open>The obituary composer\<close>

lemma prefix_contains: "prefix a s \<Longrightarrow> contains a s"
  by (cases s) auto

lemma template_prefix:
  "prefix fname (generate_template_obituary lower fname content born died reason)"
  by (simp add: generate_template_obituary_def Let_def)

lemma template_nonempty:
  "generate_template_obituary lower fname content born died reason \<noteq> []"
  by (simp add: generate_template_obituary_def Let_def u_def)

text \<open>
  C7. \<open>generate_template_obituary\<close> is a function of its arguments alone (it takes no
  file system, clock or environment, because the source reads none), so equal inputs
  give equal outputs; for every file name, content, dates and reason, and every case
  folding, its result is not empty and contains the file name: it starts with it.
\<close>

theorem template_nonempty_contains_filename:
  "generate_template_obituary lower fname content born died reason \<noteq> []
   \<and> prefix fname (generate_template_obituary lower fname content born died reason)
   \<and> contains fname (generate_template_obituary lower fname content born died reason)"
  by (simp add: template_nonempty template_prefix prefix_contains)


text \<open>
  C3, as the code has it. \<open>generate_obituary\<close> has a result for every input and every
  behaviour of the service. Without a key (unset or empty) the result is the template.
  With a key, when the service raises \<open>e\<close> the result is the template followed by the
  note that the AI obituary was unavailable, with \<open>str(e)\<close> in it; a message without
  content does the same through the \<open>IndexError\<close>. In all these cases the result is not
  empty, since the template is not. When the service answers, the result is the text of
  the first content block, stripped.
\<close>

theorem generate_obituary_fallback:
  "generate_obituary lower None service fname content reason born died
     = generate_template_obituary lower fname content born died reason
   \<and> generate_obituary lower (Some []) service fname content reason born died
     = generate_template_obituary lower fname content born died reason
   \<and> (service (k # key) (build_prompt fname content reason born died) = Raised e \<longrightarrow>
        generate_obituary lower (Some (k # key)) service fname content reason born died
          = generate_template_obituary lower fname content born died reason
            @ u ''\<newline>\<newline>*(AI obituary unavailable: '' @ e @ u '')*'')
   \<and> (service (k # key) (build_prompt fname content reason born died) = Message [] \<longrightarrow>
        generate_obituary lower (Some (k # key)) service fname content reason born died
          = generate_template_obituary lower fname content born died reason
            @ u ''\<newline>\<newline>*(AI obituary unavailable: list index out of range)*'')
   \<and> (service (k # key) (build_prompt fname content reason born died) = Message (t # ts) \<longrightarrow>
        generate_obituary lower (Some (k # key)) service fname content reason born died = strip t)
   \<and> generate_template_obituary lower fname content born died reason \<noteq> []"
  by (simp add: generate_obituary_def generate_ai_obituary_def truthy_def str_of_def Let_def
      template_nonempty) (simp add: u_def)

theorem generate_obituary_fallback_witness:
  "generate_obituary ascii_lower (Some [107]) (\<lambda>key prompt. Raised (u ''timeout''))
     (u ''a.py'') (u ''x = 1'') None None None
     = generate_template_obituary ascii_lower (u ''a.py'') (u ''x = 1'') None None None
       @ u ''\<newline>\<newline>*(AI obituary unavailable: timeout)*''
   \<and> generate_obituary ascii_lower (Some [107]) (\<lambda>key prompt. Message [])
     (u ''a.py'') (u ''x = 1'') None None None
     = generate_template_obituary ascii_lower (u ''a.py'') (u ''x = 1'') None None None
       @ u ''\<newline>\<newline>*(AI obituary unavailable: list index out of range)*''
   \<and> generate_obituary ascii_lower (Some [107]) (\<lambda>key prompt. Message [u '' Rest. '', u ''more''])
     (u ''a.py'') (u ''x = 1'') None None None = u ''Rest.''"
  using
    generate_obituary_fallback [of ascii_lower "\<lambda>key prompt. Raised (u ''timeout'')" "u ''a.py''"
      "u ''x = 1''" None None None 107 "[]" "u ''timeout''"]
    generate_obituary_fallback [of ascii_lower "\<lambda>key prompt. Message []" "u ''a.py''"
      "u ''x = 1''" None None None 107 "[]"]
    generate_obituary_fallback [of ascii_lower "\<lambda>key prompt. Message [u '' Rest. '', u ''more'']"
      "u ''a.py''" "u ''x = 1''" None None None 107 "[]" _ "u '' Rest. ''" "[u ''more'']"]
  by (simp add: u_def strip_def isspace_def)

text \<open>
  C3 as stated fails: with a key set and a service that answers with blank text, the
  result is the empty string.
\<close>

theorem generate_obituary_empty_counterexample:
  "generate_obituary ascii_lower (Some (u ''key'')) (\<lambda>key prompt. Message [u ''  ''])
     (u ''a.py'') (u ''x = 1'') None None None = []"
  by (simp add: generate_obituary_def generate_ai_obituary_def truthy_def str_of_def Let_def u_def
      strip_def isspace_def)

end
